theory Spec2Isabelle
  imports Main "HOL-Library.Sublist"
begin

section \<open>The git history provider (extensions/git/src/historyProvider.ts)\<close>

text \<open>
  A shallow embedding of \<^verbatim>\<open>GitHistoryProvider\<close>. The class is an adapter: every
  method reads from a \<^verbatim>\<open>Repository\<close> object and reshapes what it gets. The
  repository is not part of the file, so it is a parameter of every definition: a record
  holding the HEAD descriptor and, for each asynchronous operation, the answer the
  repository gives (a value, or the error its promise rejects with).

  Every method returns the list of repository calls it issued, in the order of issue,
  together with its outcome. An \<^verbatim>\<open>await\<close> on a rejected promise throws, which
  is the \<open>Inl\<close> branch of the outcome.
\<close>

subsection \<open>Strings\<close>

text \<open>
  JavaScript strings are sequences of code units; the operations used here
  (\<^verbatim>\<open>indexOf\<close>, \<^verbatim>\<open>substring\<close>, \<^verbatim>\<open>includes\<close>, \<^verbatim>\<open>split\<close>,
  template literals) only compare and copy code units, so a list of characters is
  enough.
\<close>

text \<open>\<^verbatim>\<open>s.indexOf(sub)\<close>: the least index at which \<open>sub\<close> occurs, or \<open>-1\<close>.\<close>

fun indexOf_from :: "string \<Rightarrow> string \<Rightarrow> int \<Rightarrow> int" where
  "indexOf_from [] sub i = (if sub = [] then i else - 1)"
| "indexOf_from (c # cs) sub i =
     (if prefix sub (c # cs) then i else indexOf_from cs sub (i + 1))"

definition indexOf :: "string \<Rightarrow> string \<Rightarrow> int" where
  "indexOf s sub = indexOf_from s sub 0"

text \<open>
  \<^verbatim>\<open>s.substring(indexStart, indexEnd)\<close>: both indices are clamped to
  \<open>[0, length s]\<close> and swapped when the first is the larger.
\<close>

definition substring :: "string \<Rightarrow> int \<Rightarrow> int \<Rightarrow> string" where
  "substring s indexStart indexEnd =
     (let len = int (length s);
          a = max 0 (min indexStart len);
          b = max 0 (min indexEnd len);
          lo = min a b;
          hi = max a b
      in take (nat (hi - lo)) (drop (nat lo) s))"

text \<open>\<^verbatim>\<open>s.includes(sub)\<close> (the name \<open>includes\<close> is reserved in Isabelle).\<close>

fun includes_str :: "string \<Rightarrow> string \<Rightarrow> bool" where
  "includes_str [] sub = (sub = [])"
| "includes_str (c # cs) sub = (prefix sub (c # cs) \<or> includes_str cs sub)"

text \<open>
  \<^verbatim>\<open>s.split(sep)\<close> for a string separator: the pieces between the occurrences of
  \<open>sep\<close>, found from left to right without overlap. An empty separator splits into
  single code units.
\<close>

function split_sep :: "string \<Rightarrow> string \<Rightarrow> string list" where
  "split_sep [] sep = [[]]"
| "split_sep (c # cs) sep =
     (if sep \<noteq> [] \<and> prefix sep (c # cs)
      then [] # split_sep (drop (length sep) (c # cs)) sep
      else (case split_sep cs sep of
              [] \<Rightarrow> [[c]]
            | p # ps \<Rightarrow> (c # p) # ps))"
  by pat_completeness auto
termination
  by (relation "measure (\<lambda>(s, sep). length s)") (auto simp: neq_Nil_conv)

definition split :: "string \<Rightarrow> string \<Rightarrow> string list" where
  "split s sep = (if sep = [] then map (\<lambda>c. [c]) s else split_sep s sep)"

text \<open>
  Truthiness of an optional string (\<^verbatim>\<open>!x\<close> on \<^verbatim>\<open>string | undefined\<close>):
  \<^verbatim>\<open>undefined\<close> and the empty string are falsy.
\<close>

fun truthy :: "string option \<Rightarrow> bool" where
  "truthy None = False"
| "truthy (Some s) = (s \<noteq> [])"

text \<open>Nullish coalescing \<^verbatim>\<open>x ?? d\<close>.\<close>

fun nullish :: "'a option \<Rightarrow> 'a \<Rightarrow> 'a" where
  "nullish None d = d"
| "nullish (Some x) d = x"

subsection \<open>Data of the repository layer and of the host API\<close>

text \<open>A thrown \<^verbatim>\<open>Error\<close>, by its message.\<close>

datatype error = Error string

text \<open>\<^verbatim>\<open>UpstreamRef\<close>, \<^verbatim>\<open>Branch\<close>, \<^verbatim>\<open>Commit\<close> and \<^verbatim>\<open>Change\<close> of the git API, with the
  fields this file reads. An optional field is an \<open>option\<close>. A \<^verbatim>\<open>Date\<close> is the
  number \<^verbatim>\<open>getTime()\<close> returns for it.\<close>

record UpstreamRef =
  remote :: string
  name :: string

record Branch =
  name :: "string option"
  commit :: "string option"
  upstream :: "UpstreamRef option"

record Commit =
  hash :: string
  message :: string
  parents :: "string list"
  authorDate :: "int option"
  authorName :: "string option"

record Uri =
  scheme :: string
  authority :: string
  path :: string
  query :: string
  fragment :: string

record Change =
  uri :: Uri
  originalUri :: Uri
  renameUri :: "Uri option"

record CommitCount =
  ahead :: int
  behind :: int

record LogOptions =
  range :: "string option"
  sortByAuthorDate :: "bool option"

datatype ThemeIcon = ThemeIcon string

record SourceControlRemoteHistoryItemGroup =
  id :: string
  label :: string

record SourceControlHistoryItemGroup =
  id :: string
  label :: string
  upstream :: "SourceControlRemoteHistoryItemGroup option"

record SourceControlHistoryItem =
  id :: string
  parentIds :: "string list"
  label :: string
  description :: "string option"
  icon :: "ThemeIcon option"
  timestamp :: "int option"

record SourceControlHistoryItemChange =
  uri :: Uri
  originalUri :: Uri
  modifiedUri :: Uri
  renameUri :: "Uri option"

text \<open>\<^verbatim>\<open>SourceControlHistoryOptions\<close>: the limit is a number or an object with an
  optional \<^verbatim>\<open>id\<close>. The code only asks for the \<^verbatim>\<open>typeof\<close> of a numeric limit, so
  the type of numbers is left open.\<close>

datatype 'n limit = Count 'n | Reference "string option"

record 'n SourceControlHistoryOptions =
  cursor :: "string option"
  limit :: "'n limit option"

record AncestorResult =
  id :: string
  ahead :: int
  behind :: int

subsection \<open>The repository\<close>

text \<open>
  What the provider can observe of the repository. \<open>summaryRejectsFirst\<close> belongs to the
  scheduler rather than to the repository: when both pending operations of
  \<^verbatim>\<open>Promise.all\<close> reject, it says whose rejection is seen.
\<close>

record Repository =
  HEAD :: "Branch option"
  log :: "LogOptions \<Rightarrow> error + Commit list"
  diffBetween :: "string \<Rightarrow> string \<Rightarrow> error + Change list"
  diffBetweenShortStat :: "string \<Rightarrow> string \<Rightarrow> error + string"
  getDefaultBranch :: "error + Branch"
  getMergeBase :: "string \<Rightarrow> string \<Rightarrow> error + string"
  getCommitCount :: "string \<Rightarrow> error + CommitCount"
  summaryRejectsFirst :: bool

datatype call =
    Log LogOptions
  | DiffBetween string string
  | DiffBetweenShortStat string string
  | GetDefaultBranch
  | GetMergeBase string string
  | GetCommitCount string

subsection \<open>The provider's state\<close>

datatype event = DidChangeActionButton | DidChangeCurrentHistoryItemGroup

text \<open>The private field behind \<^verbatim>\<open>currentHistoryItemGroup\<close> and the notifications
  fired so far. The other fields of the class are whatever extends the record.\<close>

record GitHistoryProvider =
  currentHistoryItemGroup :: "SourceControlHistoryItemGroup option"
  fired :: "event list"

definition set_currentHistoryItemGroup ::
  "SourceControlHistoryItemGroup option \<Rightarrow> 'a GitHistoryProvider_scheme
     \<Rightarrow> 'a GitHistoryProvider_scheme" where
  "set_currentHistoryItemGroup v this =
     this\<lparr>currentHistoryItemGroup := v,
          fired := fired this @ [DidChangeCurrentHistoryItemGroup]\<rparr>"

subsection \<open>onDidRunGitStatus\<close>

text \<open>
  \<^verbatim>\<open>HEAD?.name\<close> is \<open>Option.bind (HEAD repo) Branch.name\<close>. After the guard the name
  is a string; the \<open>None\<close> branch of the inner case is never taken.
\<close>

definition onDidRunGitStatus ::
  "Repository \<Rightarrow> 'a GitHistoryProvider_scheme \<Rightarrow> 'a GitHistoryProvider_scheme" where
  "onDidRunGitStatus repo this =
     (if \<not> truthy (Option.bind (HEAD repo) Branch.name)
         \<or> \<not> truthy (Option.bind (HEAD repo) commit)
      then this
      else
        (case Option.bind (HEAD repo) Branch.name of
           None \<Rightarrow> this
         | Some head_name \<Rightarrow>
             set_currentHistoryItemGroup
               (Some \<lparr>SourceControlHistoryItemGroup.id = ''refs/heads/'' @ head_name,
                      label = head_name,
                      upstream =
                        (case Option.bind (HEAD repo) Branch.upstream of
                           Some u \<Rightarrow>
                             Some \<lparr>SourceControlRemoteHistoryItemGroup.id =
                                     ''refs/remotes/'' @ remote u @ ''/'' @ UpstreamRef.name u,
                                   label = remote u @ ''/'' @ UpstreamRef.name u\<rparr>
                         | None \<Rightarrow> None)\<rparr>)
               this))"

subsection \<open>getSummaryHistoryItem and provideHistoryItems\<close>

text \<open>The object that \<^verbatim>\<open>getSummaryHistoryItem\<close> returns, given the statistics string.\<close>

definition summary_item :: "string \<Rightarrow> string \<Rightarrow> string \<Rightarrow> SourceControlHistoryItem" where
  "summary_item ref1 ref2 diffShortStat =
     \<lparr>SourceControlHistoryItem.id = ref1 @ ''..'' @ ref2,
      parentIds = [],
      label = ''Changes'',
      description = Some diffShortStat,
      icon = Some (ThemeIcon ''files''),
      timestamp = None\<rparr>"

definition getSummaryHistoryItem ::
  "Repository \<Rightarrow> string \<Rightarrow> string \<Rightarrow> call list \<times> (error + SourceControlHistoryItem)" where
  "getSummaryHistoryItem repo ref1 ref2 =
     ([DiffBetweenShortStat ref1 ref2],
      case diffBetweenShortStat repo ref1 ref2 of
        Inl e \<Rightarrow> Inl e
      | Inr diffShortStat \<Rightarrow> Inr (summary_item ref1 ref2 diffShortStat))"

text \<open>
  \<^verbatim>\<open>Promise.all\<close> of two promises that are both already pending: it fulfils with
  both values, and rejects with the rejection that comes first.
\<close>

fun promise_all :: "bool \<Rightarrow> error + 'a \<Rightarrow> error + 'b \<Rightarrow> error + 'a \<times> 'b" where
  "promise_all secondFirst (Inr a) (Inr b) = Inr (a, b)"
| "promise_all secondFirst (Inl e) (Inr b) = Inl e"
| "promise_all secondFirst (Inr a) (Inl e) = Inl e"
| "promise_all secondFirst (Inl e1) (Inl e2) = Inl (if secondFirst then e2 else e1)"

text \<open>The callback of \<^verbatim>\<open>commits.map\<close>; its argument \<^verbatim>\<open>commit\<close> is \<open>c\<close> here.\<close>

definition historyItemOfCommit :: "Commit \<Rightarrow> SourceControlHistoryItem" where
  "historyItemOfCommit c =
     (let newLineIndex = indexOf (message c) [CHR 0x0A];
          subject = (if newLineIndex \<noteq> - 1
                     then substring (message c) 0 newLineIndex
                     else message c)
      in \<lparr>SourceControlHistoryItem.id = hash c,
          parentIds = parents c,
          label = subject,
          description = authorName c,
          icon = Some (ThemeIcon ''account''),
          timestamp = authorDate c\<rparr>)"

fun is_number :: "'n limit option \<Rightarrow> bool" where
  "is_number (Some (Count n)) = True"
| "is_number other = False"

text \<open>\<^verbatim>\<open>options.limit?.id\<close>\<close>

fun limit_id :: "'n limit option \<Rightarrow> string option" where
  "limit_id (Some (Reference r)) = r"
| "limit_id other = None"

definition provideHistoryItems ::
  "Repository \<Rightarrow> string \<Rightarrow> 'n SourceControlHistoryOptions
     \<Rightarrow> call list \<times> (error + SourceControlHistoryItem list)" where
  "provideHistoryItems repo historyItemGroupId options =
     (if is_number (limit options) then ([], Inl (Error ''Unsupported options.''))
      else
        (case limit_id (limit options) of
           None \<Rightarrow> ([], Inl (Error ''Unsupported options.''))
         | Some optionsRef \<Rightarrow>
             (let logOptions = \<lparr>range = Some (optionsRef @ ''..'' @ historyItemGroupId),
                                sortByAuthorDate = Some True\<rparr>;
                  pending = getSummaryHistoryItem repo optionsRef historyItemGroupId
              in (Log logOptions # fst pending,
                  case promise_all (summaryRejectsFirst repo)
                         (log repo logOptions) (snd pending) of
                    Inl e \<Rightarrow> Inl e
                  | Inr (commits, summary) \<Rightarrow>
                      Inr ((if length commits = 0 then [] else [summary])
                           @ map historyItemOfCommit commits)))))"

subsection \<open>provideHistoryItemChanges\<close>

text \<open>
  The array pattern \<^verbatim>\<open>[ref1, ref2]\<close> reads the first two elements of the array.
  \<open>toGitUri\<close> is imported from another file and stays a parameter.
\<close>

fun first_two :: "string list \<Rightarrow> string option \<times> string option" where
  "first_two [] = (None, None)"
| "first_two [a] = (Some a, None)"
| "first_two (a # b # rest) = (Some a, Some b)"

definition refs_of :: "string \<Rightarrow> string option \<times> string option" where
  "refs_of historyItemId =
     (if includes_str historyItemId ''..''
      then first_two (split historyItemId ''..'')
      else (Some (historyItemId @ ''^''), Some historyItemId))"

definition historyItemChange ::
  "(Uri \<Rightarrow> string \<Rightarrow> Uri) \<Rightarrow> string \<Rightarrow> string \<Rightarrow> string \<Rightarrow> Change
     \<Rightarrow> SourceControlHistoryItemChange" where
  "historyItemChange toGitUri historyItemId ref1 ref2 change =
     \<lparr>SourceControlHistoryItemChange.uri =
        (Change.uri change)\<lparr>query := ''ref='' @ historyItemId\<rparr>,
      originalUri = toGitUri (Change.originalUri change) ref1,
      modifiedUri = toGitUri (Change.originalUri change) ref2,
      renameUri = Change.renameUri change\<rparr>"

text \<open>
  \<^verbatim>\<open>includes\<close> and \<^verbatim>\<open>split\<close> agree: when the id contains \<^verbatim>\<open>..\<close> the array
  has at least two elements, so both refs are strings (lemma \<open>first_two_split\<close>
  below). The last branch, where a ref would be \<^verbatim>\<open>undefined\<close>, is there to make
  the definition total and is never taken.
\<close>

definition provideHistoryItemChanges ::
  "(Uri \<Rightarrow> string \<Rightarrow> Uri) \<Rightarrow> Repository \<Rightarrow> string
     \<Rightarrow> call list \<times> (error + SourceControlHistoryItemChange list)" where
  "provideHistoryItemChanges toGitUri repo historyItemId =
     (case refs_of historyItemId of
        (Some ref1, Some ref2) \<Rightarrow>
          ([DiffBetween ref1 ref2],
           case diffBetween repo ref1 ref2 of
             Inl e \<Rightarrow> Inl e
           | Inr changes \<Rightarrow>
               Inr (map (historyItemChange toGitUri historyItemId ref1 ref2) changes))
      | other \<Rightarrow> ([], Inl (Error ''undefined ref'')))"

subsection \<open>resolveHistoryItemGroupCommonAncestor\<close>

text \<open>
  \<^verbatim>\<open>refId2 ?? (await getDefaultBranch()).name ?? ''\<close>: the default branch is asked
  for only when \<open>refId2\<close> is \<^verbatim>\<open>undefined\<close>.
\<close>

definition resolve_refId2 :: "Repository \<Rightarrow> string option \<Rightarrow> call list \<times> (error + string)" where
  "resolve_refId2 repo refId2 =
     (case refId2 of
        Some r \<Rightarrow> ([], Inr r)
      | None \<Rightarrow>
          ([GetDefaultBranch],
           case getDefaultBranch repo of
             Inl e \<Rightarrow> Inl e
           | Inr branch \<Rightarrow> Inr (nullish (Branch.name branch) '''')))"

definition resolveHistoryItemGroupCommonAncestor ::
  "Repository \<Rightarrow> string \<Rightarrow> string option \<Rightarrow> call list \<times> (error + AncestorResult option)" where
  "resolveHistoryItemGroupCommonAncestor repo refId1 refId2_arg =
     (case resolve_refId2 repo refId2_arg of
        (calls, Inl e) \<Rightarrow> (calls, Inl e)
      | (calls, Inr refId2) \<Rightarrow>
          if refId2 = '''' then (calls, Inr None)
          else
            (case getMergeBase repo refId1 refId2 of
               Inl e \<Rightarrow> (calls @ [GetMergeBase refId1 refId2], Inl e)
             | Inr ancestor \<Rightarrow>
                 if ancestor = '''' then (calls @ [GetMergeBase refId1 refId2], Inr None)
                 else
                   (case getCommitCount repo (refId1 @ ''...'' @ refId2) of
                      Inl e \<Rightarrow>
                        (calls @ [GetMergeBase refId1 refId2,
                                  GetCommitCount (refId1 @ ''...'' @ refId2)], Inl e)
                    | Inr commitCount \<Rightarrow>
                        (calls @ [GetMergeBase refId1 refId2,
                                  GetCommitCount (refId1 @ ''...'' @ refId2)],
                         Inr (Some \<lparr>AncestorResult.id = ancestor,
                                     ahead = CommitCount.ahead commitCount,
                                     behind = CommitCount.behind commitCount\<rparr>)))))"

subsection \<open>Sample data\<close>

text \<open>A small repository on which the theorems below are instantiated.\<close>

definition sample_commits :: "Commit list" where
  "sample_commits =
     [\<lparr>hash = ''b2'', message = ''Fix parser'' @ [CHR 0x0A, CHR 0x0A] @ ''Details.'',
       parents = [''a1''], authorDate = Some 1700000000000, authorName = Some ''Ada''\<rparr>,
      \<lparr>hash = ''a1'', message = ''Initial commit'',
       parents = [], authorDate = None, authorName = None\<rparr>]"

definition sample_repository :: Repository where
  "sample_repository =
     \<lparr>HEAD = Some \<lparr>Branch.name = Some ''main'', commit = Some ''b2'',
                   upstream = Some \<lparr>remote = ''origin'', name = ''main''\<rparr>\<rparr>,
      log = (\<lambda>opts. Inr sample_commits),
      diffBetween = (\<lambda>ref1 ref2. Inr []),
      diffBetweenShortStat = (\<lambda>ref1 ref2. Inr ''2 files changed''),
      getDefaultBranch = Inr \<lparr>Branch.name = None, commit = None, upstream = None\<rparr>,
      getMergeBase = (\<lambda>ref1 ref2. Inr ''a1''),
      getCommitCount = (\<lambda>r. Inr \<lparr>CommitCount.ahead = 2, behind = 1\<rparr>),
      summaryRejectsFirst = False\<rparr>"

definition sample_rename :: Change where
  "sample_rename =
     \<lparr>Change.uri = \<lparr>scheme = ''file'', authority = '''', path = ''/repo/new.ts'',
                      query = '''', fragment = ''''\<rparr>,
      originalUri = \<lparr>scheme = ''file'', authority = '''', path = ''/repo/old.ts'',
                      query = '''', fragment = ''''\<rparr>,
      renameUri = Some \<lparr>scheme = ''file'', authority = '''', path = ''/repo/new.ts'',
                        query = '''', fragment = ''''\<rparr>\<rparr>"

definition sample_toGitUri :: "Uri \<Rightarrow> string \<Rightarrow> Uri" where
  "sample_toGitUri u ref = u\<lparr>scheme := ''git'', query := ref\<rparr>"

section \<open>Properties\<close>

subsection \<open>String operations\<close>

lemma indexOf_from_char:
  "indexOf_from s [x] i =
     (if x \<in> set s then i + int (length (takeWhile (\<lambda>c. c \<noteq> x) s)) else - 1)"
  by (induction s arbitrary: i) auto

lemma indexOf_char:
  "indexOf s [x] = (if x \<in> set s then int (length (takeWhile (\<lambda>c. c \<noteq> x) s)) else - 1)"
  by (simp add: indexOf_def indexOf_from_char)

lemma substring_from_start: "0 \<le> n \<Longrightarrow> substring s 0 n = take (nat n) s"
  by (simp add: substring_def Let_def min_def max_def)

lemma label_historyItemOfCommit:
  "label (historyItemOfCommit c) = takeWhile (\<lambda>ch. ch \<noteq> CHR 0x0A) (message c)"
proof (cases "CHR 0x0A \<in> set (message c)")
  case True
  then show ?thesis
    by (simp add: historyItemOfCommit_def indexOf_char substring_from_start
        takeWhile_eq_take [symmetric])
next
  case False
  then have whole: "label (historyItemOfCommit c) = message c"
    by (simp add: historyItemOfCommit_def indexOf_char)
  from False have line: "takeWhile (\<lambda>ch. ch \<noteq> CHR 0x0A) (message c) = message c"
    by auto
  show ?thesis by (rule trans [OF whole line [symmetric]])
qed

lemma includes_str_sublist: "includes_str s sub = sublist sub s"
  by (induction s) (auto simp: sublist_Cons_right)

lemma split_sep_not_Nil: "split_sep s sep \<noteq> []"
  by (induction s sep rule: split_sep.induct) (auto split: list.splits)

lemma split_sep_two:
  "sep \<noteq> [] \<Longrightarrow> includes_str s sep \<Longrightarrow> \<exists>a b rest. split_sep s sep = a # b # rest"
proof (induction s sep rule: split_sep.induct)
  case (1 sep)
  then show ?case by simp
next
  case (2 c cs sep)
  show ?case
  proof (cases "prefix sep (c # cs)")
    case True
    with 2 show ?thesis using split_sep_not_Nil [of "drop (length sep) (c # cs)" sep]
      by (auto simp: neq_Nil_conv)
  next
    case False
    with 2 show ?thesis by (auto split: list.splits)
  qed
qed

lemma split_sep_none: "\<not> includes_str s sep \<Longrightarrow> split_sep s sep = [s]"
  by (induction s) auto

lemma split_sep_first:
  "\<not> includes_str (a @ ''.'') ''..'' \<Longrightarrow> split_sep (a @ ''..'' @ b) ''..'' = a # split_sep b ''..''"
proof (induction a)
  case Nil
  then show ?case by simp
next
  case (Cons x a)
  then show ?case by (cases a) auto
qed

subsection \<open>Status refresh\<close>

text \<open>
  C2, as amended. Let HEAD have a non-empty name \<open>B\<close> and a non-empty commit id.
  After the status-refresh reaction, \<open>currentHistoryItemGroup\<close> has id
  \<^verbatim>\<open>refs/heads/B\<close> and label \<open>B\<close>; with upstream \<open>(R, N)\<close> its upstream has id
  \<^verbatim>\<open>refs/remotes/R/N\<close> and label \<^verbatim>\<open>R/N\<close>, and with no upstream the upstream field is
  undefined. The guard tests truthiness, so an empty name or an empty commit id counts
  as absent: the claim as stated, for every name \<open>B\<close>, fails at the empty name.
\<close>

theorem onDidRunGitStatus_group:
  assumes "HEAD repo = Some h" and "Branch.name h = Some B" and "B \<noteq> []"
    and "commit h = Some c" and "c \<noteq> []"
  shows "(Branch.upstream h = Some \<lparr>remote = R, name = N\<rparr> \<longrightarrow>
            currentHistoryItemGroup (onDidRunGitStatus repo this) =
              Some \<lparr>SourceControlHistoryItemGroup.id = ''refs/heads/'' @ B, label = B,
                    upstream = Some \<lparr>SourceControlRemoteHistoryItemGroup.id =
                                       ''refs/remotes/'' @ R @ ''/'' @ N,
                                     label = R @ ''/'' @ N\<rparr>\<rparr>)
       \<and> (Branch.upstream h = None \<longrightarrow>
            currentHistoryItemGroup (onDidRunGitStatus repo this) =
              Some \<lparr>SourceControlHistoryItemGroup.id = ''refs/heads/'' @ B, label = B,
                    upstream = None\<rparr>)"
  using assms by (simp add: onDidRunGitStatus_def set_currentHistoryItemGroup_def)

text \<open>C2 at the sample repository: branch \<^verbatim>\<open>main\<close> tracking \<^verbatim>\<open>origin/main\<close>.\<close>

theorem onDidRunGitStatus_group_witness:
  "currentHistoryItemGroup
     (onDidRunGitStatus sample_repository \<lparr>currentHistoryItemGroup = None, fired = []\<rparr>) =
   Some \<lparr>SourceControlHistoryItemGroup.id = ''refs/heads/main'', label = ''main'',
         upstream = Some \<lparr>SourceControlRemoteHistoryItemGroup.id = ''refs/remotes/origin/main'',
                          label = ''origin/main''\<rparr>\<rparr>"
  using onDidRunGitStatus_group [of sample_repository
      "\<lparr>Branch.name = Some ''main'', commit = Some ''b2'',
        upstream = Some \<lparr>remote = ''origin'', name = ''main''\<rparr>\<rparr>"
      "''main''" "''b2''" "''origin''" "''main''"
      "\<lparr>currentHistoryItemGroup = None, fired = []\<rparr>"]
  by (simp add: sample_repository_def)

text \<open>
  C2 as stated fails for the empty branch name: HEAD has name \<^verbatim>\<open>""\<close>, a defined
  commit and an upstream, and the group stays undefined.
\<close>

theorem onDidRunGitStatus_empty_name_counterexample:
  "currentHistoryItemGroup
     (onDidRunGitStatus
        (sample_repository\<lparr>HEAD := Some \<lparr>Branch.name = Some '''', commit = Some ''b2'',
                   upstream = Some \<lparr>remote = ''origin'', name = ''main''\<rparr>\<rparr>\<rparr>)
        \<lparr>currentHistoryItemGroup = None, fired = []\<rparr>)
   \<noteq> Some \<lparr>SourceControlHistoryItemGroup.id = ''refs/heads/'' @ '''', label = '''',
         upstream = Some \<lparr>SourceControlRemoteHistoryItemGroup.id = ''refs/remotes/origin/main'',
                          label = ''origin/main''\<rparr>\<rparr>"
  by (simp add: onDidRunGitStatus_def)

text \<open>
  C6. When HEAD is absent, or has no name or no commit (undefined, or the empty string,
  which the guard treats alike), the reaction returns the provider unchanged: the group
  is the prior one, no notification is fired, and nothing is thrown.
\<close>

theorem onDidRunGitStatus_noop:
  assumes "\<forall>h. HEAD repo = Some h \<longrightarrow>
             Branch.name h = None \<or> Branch.name h = Some '''' \<or> commit h = None \<or> commit h = Some ''''"
  shows "onDidRunGitStatus repo this = this"
proof (cases "HEAD repo")
  case None
  then show ?thesis by (simp add: onDidRunGitStatus_def)
next
  case (Some h)
  with assms have "\<not> truthy (Branch.name h) \<or> \<not> truthy (commit h)"
    by auto
  with Some show ?thesis by (simp add: onDidRunGitStatus_def)
qed

text \<open>C6 on a detached HEAD (a commit and no name), with a group already set.\<close>

theorem onDidRunGitStatus_noop_witness:
  "onDidRunGitStatus
     (sample_repository\<lparr>HEAD := Some \<lparr>Branch.name = None, commit = Some ''b2'', upstream = None\<rparr>\<rparr>)
     \<lparr>currentHistoryItemGroup =
        Some \<lparr>SourceControlHistoryItemGroup.id = ''refs/heads/main'', label = ''main'',
               upstream = None\<rparr>,
      fired = [DidChangeCurrentHistoryItemGroup]\<rparr>
   = \<lparr>currentHistoryItemGroup =
        Some \<lparr>SourceControlHistoryItemGroup.id = ''refs/heads/main'', label = ''main'',
               upstream = None\<rparr>,
      fired = [DidChangeCurrentHistoryItemGroup]\<rparr>"
  using onDidRunGitStatus_noop [of
      "sample_repository\<lparr>HEAD := Some \<lparr>Branch.name = None, commit = Some ''b2'', upstream = None\<rparr>\<rparr>"]
  by simp

subsection \<open>Outcome of provideHistoryItems when both requests succeed\<close>

lemma provideHistoryItems_fulfilled:
  assumes "limit options = Some (Reference (Some R))"
    and "log repo \<lparr>range = Some (R @ ''..'' @ G), sortByAuthorDate = Some True\<rparr> = Inr commits"
    and "diffBetweenShortStat repo R G = Inr stat"
  shows "provideHistoryItems repo G options =
           ([Log \<lparr>range = Some (R @ ''..'' @ G), sortByAuthorDate = Some True\<rparr>,
             DiffBetweenShortStat R G],
            Inr ((if commits = [] then [] else [summary_item R G stat])
                 @ map historyItemOfCommit commits))"
  using assms
  by (simp add: provideHistoryItems_def getSummaryHistoryItem_def summary_item_def)

lemma icon_historyItemOfCommit: "icon (historyItemOfCommit c) = Some (ThemeIcon ''account'')"
  by (simp add: historyItemOfCommit_def Let_def)

lemma summary_not_commit: "summary_item R G stat \<notin> set (map historyItemOfCommit commits)"
proof
  assume "summary_item R G stat \<in> set (map historyItemOfCommit commits)"
  then obtain c where "summary_item R G stat = historyItemOfCommit c" by auto
  then have "icon (summary_item R G stat) = icon (historyItemOfCommit c)" by simp
  then show False by (simp add: icon_historyItemOfCommit summary_item_def)
qed

subsection \<open>History items\<close>

text \<open>
  C1. Let the limit of the options be the reference \<open>R\<close>, let the repository answer the
  log request for the range \<^verbatim>\<open>R..G\<close> with a non-empty list of \<open>N\<close> commits and
  the short diff statistics request for \<open>(R, G)\<close> with \<open>stat\<close>. Then
  \<open>provideHistoryItems\<close> returns \<open>N + 1\<close> items. Item 0 is the summary: id
  \<^verbatim>\<open>R..G\<close>, label \<^verbatim>\<open>Changes\<close>, description \<open>stat\<close>. Item \<open>i + 1\<close> is made from
  commit \<open>i\<close> of the log: its id is the hash, its parentIds the parents, its description
  the author name, and its label the message up to the first newline (all of it when
  there is none).
\<close>

theorem provideHistoryItems_items:
  assumes "limit options = Some (Reference (Some R))"
    and "log repo \<lparr>range = Some (R @ ''..'' @ G), sortByAuthorDate = Some True\<rparr> = Inr commits"
    and "commits \<noteq> []"
    and "diffBetweenShortStat repo R G = Inr stat"
  shows "\<exists>items. snd (provideHistoryItems repo G options) = Inr items
           \<and> length items = length commits + 1
           \<and> SourceControlHistoryItem.id (items ! 0) = R @ ''..'' @ G
           \<and> label (items ! 0) = ''Changes''
           \<and> description (items ! 0) = Some stat
           \<and> (\<forall>i<length commits.
                 SourceControlHistoryItem.id (items ! (i + 1)) = hash (commits ! i)
               \<and> parentIds (items ! (i + 1)) = parents (commits ! i)
               \<and> description (items ! (i + 1)) = authorName (commits ! i)
               \<and> label (items ! (i + 1)) =
                   takeWhile (\<lambda>ch. ch \<noteq> CHR 0x0A) (message (commits ! i)))"
proof -
  let ?items = "summary_item R G stat # map historyItemOfCommit commits"
  have run: "snd (provideHistoryItems repo G options) = Inr ?items"
    using assms by (simp add: provideHistoryItems_fulfilled)
  have len: "length ?items = length commits + 1" by simp
  have head: "SourceControlHistoryItem.id (?items ! 0) = R @ ''..'' @ G"
    "label (?items ! 0) = ''Changes''" "description (?items ! 0) = Some stat"
    by (simp_all add: summary_item_def)
  have rest: "SourceControlHistoryItem.id (?items ! (i + 1)) = hash (commits ! i)
      \<and> parentIds (?items ! (i + 1)) = parents (commits ! i)
      \<and> description (?items ! (i + 1)) = authorName (commits ! i)
      \<and> label (?items ! (i + 1)) = takeWhile (\<lambda>ch. ch \<noteq> CHR 0x0A) (message (commits ! i))"
    if "i < length commits" for i
  proof -
    from that have nth: "?items ! (i + 1) = historyItemOfCommit (commits ! i)" by simp
    show ?thesis unfolding nth
      by (simp add: label_historyItemOfCommit) (simp add: historyItemOfCommit_def Let_def)
  qed
  from run len head rest show ?thesis by blast
qed

text \<open>C1 on the sample repository: two commits, the first with a message of three lines.\<close>

theorem provideHistoryItems_items_witness:
  "limit \<lparr>cursor = None, limit = Some (Reference (Some ''origin/main'') :: int limit)\<rparr>
     = Some (Reference (Some ''origin/main''))
   \<and> log sample_repository \<lparr>range = Some (''origin/main'' @ ''..'' @ ''refs/heads/main''),
                             sortByAuthorDate = Some True\<rparr> = Inr sample_commits
   \<and> sample_commits \<noteq> []
   \<and> diffBetweenShortStat sample_repository ''origin/main'' ''refs/heads/main''
       = Inr ''2 files changed''
   \<and> (\<exists>items. snd (provideHistoryItems sample_repository ''refs/heads/main''
                     \<lparr>cursor = None, limit = Some (Reference (Some ''origin/main'') :: int limit)\<rparr>)
                = Inr items
           \<and> length items = length sample_commits + 1
           \<and> SourceControlHistoryItem.id (items ! 0) = ''origin/main'' @ ''..'' @ ''refs/heads/main''
           \<and> label (items ! 0) = ''Changes''
           \<and> description (items ! 0) = Some ''2 files changed''
           \<and> (\<forall>i<length sample_commits.
                 SourceControlHistoryItem.id (items ! (i + 1)) = hash (sample_commits ! i)
               \<and> parentIds (items ! (i + 1)) = parents (sample_commits ! i)
               \<and> description (items ! (i + 1)) = authorName (sample_commits ! i)
               \<and> label (items ! (i + 1)) =
                   takeWhile (\<lambda>ch. ch \<noteq> CHR 0x0A) (message (sample_commits ! i))))"
proof -
  have h1: "limit \<lparr>cursor = None, limit = Some (Reference (Some ''origin/main'') :: int limit)\<rparr>
     = Some (Reference (Some ''origin/main''))" by simp
  have h2: "log sample_repository \<lparr>range = Some (''origin/main'' @ ''..'' @ ''refs/heads/main''),
                             sortByAuthorDate = Some True\<rparr> = Inr sample_commits"
    by (simp add: sample_repository_def)
  have h3: "sample_commits \<noteq> []" by (simp add: sample_commits_def)
  have h4: "diffBetweenShortStat sample_repository ''origin/main'' ''refs/heads/main''
       = Inr ''2 files changed''" by (simp add: sample_repository_def)
  from h1 h2 h3 h4 provideHistoryItems_items [OF h1 h2 h3 h4] show ?thesis by blast
qed

text \<open>
  C5. Let the limit of the options be the reference \<open>R\<close>, and let the repository answer
  the log request for the range \<^verbatim>\<open>R..G\<close> and the short diff statistics request for
  \<open>(R, G)\<close>. Then \<open>provideHistoryItems\<close> returns a list that contains the summary item
  exactly when the log is non-empty; with an empty log it is the empty list, and it is
  never the summary alone.
\<close>

theorem provideHistoryItems_summary_iff:
  assumes "limit options = Some (Reference (Some R))"
    and "log repo \<lparr>range = Some (R @ ''..'' @ G), sortByAuthorDate = Some True\<rparr> = Inr commits"
    and "diffBetweenShortStat repo R G = Inr stat"
  shows "\<exists>items. snd (provideHistoryItems repo G options) = Inr items
           \<and> (summary_item R G stat \<in> set items \<longleftrightarrow> commits \<noteq> [])
           \<and> (commits = [] \<longrightarrow> items = [])
           \<and> items \<noteq> [summary_item R G stat]"
proof -
  let ?items = "(if commits = [] then [] else [summary_item R G stat])
                 @ map historyItemOfCommit commits"
  have run: "snd (provideHistoryItems repo G options) = Inr ?items"
    using assms by (simp add: provideHistoryItems_fulfilled)
  have mem: "summary_item R G stat \<in> set ?items \<longleftrightarrow> commits \<noteq> []"
    using summary_not_commit [of R G stat commits] by auto
  have empty: "commits = [] \<longrightarrow> ?items = []" by simp
  have sole: "?items \<noteq> [summary_item R G stat]" by (cases commits) auto
  from run mem empty sole show ?thesis by blast
qed

text \<open>C5 on the sample repository, with its two commits and with an empty log.\<close>

theorem provideHistoryItems_summary_iff_witness:
  "(\<exists>items. snd (provideHistoryItems sample_repository ''refs/heads/main''
                    \<lparr>cursor = None, limit = Some (Reference (Some ''origin/main'') :: int limit)\<rparr>)
                = Inr items
           \<and> (summary_item ''origin/main'' ''refs/heads/main'' ''2 files changed'' \<in> set items
                \<longleftrightarrow> sample_commits \<noteq> [])
           \<and> (sample_commits = [] \<longrightarrow> items = [])
           \<and> items \<noteq> [summary_item ''origin/main'' ''refs/heads/main'' ''2 files changed''])
   \<and> (\<exists>items. snd (provideHistoryItems (sample_repository\<lparr>log := \<lambda>opts. Inr []\<rparr>)
                    ''refs/heads/main''
                    \<lparr>cursor = None, limit = Some (Reference (Some ''origin/main'') :: int limit)\<rparr>)
                = Inr items
           \<and> (summary_item ''origin/main'' ''refs/heads/main'' ''2 files changed'' \<in> set items
                \<longleftrightarrow> ([] :: Commit list) \<noteq> [])
           \<and> (([] :: Commit list) = [] \<longrightarrow> items = [])
           \<and> items \<noteq> [summary_item ''origin/main'' ''refs/heads/main'' ''2 files changed''])"
proof -
  let ?options = "\<lparr>cursor = None, limit = Some (Reference (Some ''origin/main'') :: int limit)\<rparr>"
  let ?log = "\<lparr>range = Some (''origin/main'' @ ''..'' @ ''refs/heads/main''),
               sortByAuthorDate = Some True\<rparr>"
  let ?empty = "sample_repository\<lparr>log := \<lambda>opts. Inr []\<rparr>"
  have h1: "limit ?options = Some (Reference (Some ''origin/main''))" by simp
  have h2: "log sample_repository ?log = Inr sample_commits"
    by (simp add: sample_repository_def)
  have h3: "diffBetweenShortStat sample_repository ''origin/main'' ''refs/heads/main''
       = Inr ''2 files changed''" by (simp add: sample_repository_def)
  have e2: "log ?empty ?log = Inr []" by simp
  have e3: "diffBetweenShortStat ?empty ''origin/main'' ''refs/heads/main''
       = Inr ''2 files changed''" by (simp add: sample_repository_def)
  from provideHistoryItems_summary_iff [OF h1 h2 h3]
       provideHistoryItems_summary_iff [OF h1 e2 e3]
  show ?thesis by blast
qed

text \<open>
  C3. When the limit is a number, or is anything but an object with a string \<^verbatim>\<open>id\<close>
  (no limit at all, or an object without \<^verbatim>\<open>id\<close>), \<open>provideHistoryItems\<close> throws
  \<^verbatim>\<open>Unsupported options.\<close> and the list of repository calls is empty.
\<close>

theorem provideHistoryItems_unsupported:
  assumes "(\<exists>n. limit options = Some (Count n))
           \<or> (\<forall>R. limit options \<noteq> Some (Reference (Some R)))"
  shows "provideHistoryItems repo G options = ([], Inl (Error ''Unsupported options.''))"
proof (cases "is_number (limit options)")
  case True
  then show ?thesis by (simp add: provideHistoryItems_def)
next
  case False
  then have "\<forall>n. limit options \<noteq> Some (Count n)" by auto
  with assms have "limit_id (limit options) = None"
    by (cases "limit options" rule: limit_id.cases) auto
  with False show ?thesis by (simp add: provideHistoryItems_def)
qed

text \<open>C3 for the limit \<^verbatim>\<open>5\<close>, for no limit, and for a limit object without an id.\<close>

theorem provideHistoryItems_unsupported_witness:
  "provideHistoryItems sample_repository ''refs/heads/main''
     \<lparr>cursor = None, limit = Some (Count (5 :: int))\<rparr>
     = ([], Inl (Error ''Unsupported options.''))
   \<and> provideHistoryItems sample_repository ''refs/heads/main''
     \<lparr>cursor = None, limit = (None :: int limit option)\<rparr>
     = ([], Inl (Error ''Unsupported options.''))
   \<and> provideHistoryItems sample_repository ''refs/heads/main''
     \<lparr>cursor = None, limit = Some (Reference None :: int limit)\<rparr>
     = ([], Inl (Error ''Unsupported options.''))"
  using provideHistoryItems_unsupported [of "\<lparr>cursor = None, limit = Some (Count (5 :: int))\<rparr>"
          sample_repository "''refs/heads/main''"]
        provideHistoryItems_unsupported [of "\<lparr>cursor = None, limit = (None :: int limit option)\<rparr>"
          sample_repository "''refs/heads/main''"]
        provideHistoryItems_unsupported [of "\<lparr>cursor = None, limit = Some (Reference None :: int limit)\<rparr>"
          sample_repository "''refs/heads/main''"]
  by simp

subsection \<open>The two refs of a history item id\<close>

lemma split_dots: "split s ''..'' = split_sep s ''..''"
  by (simp add: split_def)

lemma refs_of_single:
  "\<not> includes_str historyItemId ''..'' \<Longrightarrow>
     refs_of historyItemId = (Some (historyItemId @ ''^''), Some historyItemId)"
  by (simp add: refs_of_def)

lemma refs_of_range:
  assumes "includes_str historyItemId ''..''"
  shows "\<exists>r1 r2 rest. split historyItemId ''..'' = r1 # r2 # rest
           \<and> refs_of historyItemId = (Some r1, Some r2)"
proof -
  from assms obtain r1 r2 rest where "split_sep historyItemId ''..'' = r1 # r2 # rest"
    using split_sep_two [of "''..''" historyItemId] by auto
  with assms show ?thesis by (simp add: refs_of_def split_dots)
qed

lemma refs_of_two:
  assumes "\<not> includes_str (a @ ''.'') ''..''" and "\<not> includes_str b ''..''"
  shows "refs_of (a @ ''..'' @ b) = (Some a, Some b)"
proof -
  have "sublist ''..'' (a @ ''..'' @ b)"
    by (rule sublist_appendI)
  then have "includes_str (a @ ''..'' @ b) ''..''"
    by (simp only: includes_str_sublist)
  moreover have "split_sep (a @ ''..'' @ b) ''..'' = [a, b]"
    using split_sep_first [OF assms(1), of b] split_sep_none [OF assms(2)] by simp
  ultimately show ?thesis by (simp only: refs_of_def split_dots first_two.simps if_True)
qed

lemma first_two_split: "\<exists>ref1 ref2. refs_of historyItemId = (Some ref1, Some ref2)"
  using refs_of_single [of historyItemId] refs_of_range [of historyItemId] by blast

lemma provideHistoryItemChanges_refs_of:
  "refs_of historyItemId = (Some ref1, Some ref2) \<Longrightarrow>
     provideHistoryItemChanges toGitUri repo historyItemId =
       ([DiffBetween ref1 ref2],
        case diffBetween repo ref1 ref2 of
          Inl e \<Rightarrow> Inl e
        | Inr changes \<Rightarrow> Inr (map (historyItemChange toGitUri historyItemId ref1 ref2) changes))"
  by (simp add: provideHistoryItemChanges_def)

subsection \<open>Changes of a history item\<close>

text \<open>
  C4. The only repository call of \<open>provideHistoryItemChanges\<close> is one between-refs
  diff. For an id without \<^verbatim>\<open>..\<close> it is the diff between the id followed by
  \<^verbatim>\<open>^\<close> and the id. For an id with \<^verbatim>\<open>..\<close> it is the diff between the first two
  pieces of the id split at \<^verbatim>\<open>..\<close>; in particular for an id \<^verbatim>\<open>a..b\<close>, where
  \<^verbatim>\<open>..\<close> occurs in neither \<open>b\<close> nor \<open>a\<close> followed by a dot, it is the diff between
  \<open>a\<close> and \<open>b\<close>.
\<close>

theorem provideHistoryItemChanges_query:
  "(\<not> includes_str itemId ''..'' \<longrightarrow>
      fst (provideHistoryItemChanges toGitUri repo itemId) = [DiffBetween (itemId @ ''^'') itemId])
   \<and> (includes_str itemId ''..'' \<longrightarrow>
        (\<exists>r1 r2 rest. split itemId ''..'' = r1 # r2 # rest
           \<and> fst (provideHistoryItemChanges toGitUri repo itemId) = [DiffBetween r1 r2]))
   \<and> (\<forall>a b. itemId = a @ ''..'' @ b \<and> \<not> includes_str (a @ ''.'') ''..'' \<and> \<not> includes_str b ''..''
        \<longrightarrow> fst (provideHistoryItemChanges toGitUri repo itemId) = [DiffBetween a b])"
proof (intro conjI impI allI)
  assume "\<not> includes_str itemId ''..''"
  then show "fst (provideHistoryItemChanges toGitUri repo itemId) = [DiffBetween (itemId @ ''^'') itemId]"
    by (simp add: provideHistoryItemChanges_refs_of [OF refs_of_single])
next
  assume "includes_str itemId ''..''"
  then obtain r1 r2 rest where "split itemId ''..'' = r1 # r2 # rest"
    and "refs_of itemId = (Some r1, Some r2)"
    using refs_of_range by blast
  then show "\<exists>r1 r2 rest. split itemId ''..'' = r1 # r2 # rest
           \<and> fst (provideHistoryItemChanges toGitUri repo itemId) = [DiffBetween r1 r2]"
    by (simp add: provideHistoryItemChanges_refs_of)
next
  fix a b
  assume "itemId = a @ ''..'' @ b \<and> \<not> includes_str (a @ ''.'') ''..'' \<and> \<not> includes_str b ''..''"
  then have "refs_of itemId = (Some a, Some b)"
    using refs_of_two [of a b] by blast
  then show "fst (provideHistoryItemChanges toGitUri repo itemId) = [DiffBetween a b]"
    by (simp add: provideHistoryItemChanges_refs_of)
qed

text \<open>C4 for the ids \<^verbatim>\<open>abc123\<close> and \<^verbatim>\<open>a..b\<close>.\<close>

theorem provideHistoryItemChanges_query_witness:
  "\<not> includes_str ''abc123'' ''..''
   \<and> fst (provideHistoryItemChanges sample_toGitUri sample_repository ''abc123'')
     = [DiffBetween ''abc123^'' ''abc123'']
   \<and> includes_str ''a..b'' ''..''
   \<and> split ''a..b'' ''..'' = [''a'', ''b'']
   \<and> fst (provideHistoryItemChanges sample_toGitUri sample_repository ''a..b'')
     = [DiffBetween ''a'' ''b'']"
proof -
  have single: "\<not> includes_str ''abc123'' ''..''" by simp
  have inc: "includes_str ''a..b'' ''..''" by simp
  have parts: "split ''a..b'' ''..'' = [''a'', ''b'']" by (simp add: split_def)
  have range: "''a..b'' = ''a'' @ ''..'' @ ''b'' \<and> \<not> includes_str (''a'' @ ''.'') ''..''
      \<and> \<not> includes_str ''b'' ''..''" by simp
  from single inc parts range
    provideHistoryItemChanges_query [of "''abc123''" sample_toGitUri sample_repository]
    provideHistoryItemChanges_query [of "''a..b''" sample_toGitUri sample_repository]
  show ?thesis by (metis append_Cons append_Nil)
qed

text \<open>
  C9. For every id there are the two refs of the diff request, and for every list of
  changes the repository answers with, the result has one entry per change, in order:
  \<open>originalUri\<close> is \<open>toGitUri\<close> of the change's original uri at the first ref,
  \<open>modifiedUri\<close> is \<open>toGitUri\<close> of the same original uri at the second ref, \<open>uri\<close> is
  the change's current uri with the query \<^verbatim>\<open>ref=<id>\<close>, and \<open>renameUri\<close> is passed
  on. The current uri of the change occurs in no other field.
\<close>

theorem provideHistoryItemChanges_uris:
  "\<exists>ref1 ref2.
     fst (provideHistoryItemChanges toGitUri repo itemId) = [DiffBetween ref1 ref2]
     \<and> (\<forall>changes. diffBetween repo ref1 ref2 = Inr changes \<longrightarrow>
          (\<exists>out. snd (provideHistoryItemChanges toGitUri repo itemId) = Inr out
             \<and> length out = length changes
             \<and> (\<forall>i<length changes.
                   SourceControlHistoryItemChange.originalUri (out ! i) =
                     toGitUri (Change.originalUri (changes ! i)) ref1
                 \<and> modifiedUri (out ! i) = toGitUri (Change.originalUri (changes ! i)) ref2
                 \<and> SourceControlHistoryItemChange.uri (out ! i) =
                     (Change.uri (changes ! i))\<lparr>query := ''ref='' @ itemId\<rparr>
                 \<and> SourceControlHistoryItemChange.renameUri (out ! i) =
                     Change.renameUri (changes ! i))))"
proof -
  obtain ref1 ref2 where refs: "refs_of itemId = (Some ref1, Some ref2)"
    using first_two_split by blast
  have call: "fst (provideHistoryItemChanges toGitUri repo itemId) = [DiffBetween ref1 ref2]"
    by (simp add: provideHistoryItemChanges_refs_of [OF refs])
  have "\<exists>out. snd (provideHistoryItemChanges toGitUri repo itemId) = Inr out
             \<and> length out = length changes
             \<and> (\<forall>i<length changes.
                   SourceControlHistoryItemChange.originalUri (out ! i) =
                     toGitUri (Change.originalUri (changes ! i)) ref1
                 \<and> modifiedUri (out ! i) = toGitUri (Change.originalUri (changes ! i)) ref2
                 \<and> SourceControlHistoryItemChange.uri (out ! i) =
                     (Change.uri (changes ! i))\<lparr>query := ''ref='' @ itemId\<rparr>
                 \<and> SourceControlHistoryItemChange.renameUri (out ! i) =
                     Change.renameUri (changes ! i))"
    if "diffBetween repo ref1 ref2 = Inr changes" for changes
    using that
    by (simp add: provideHistoryItemChanges_refs_of [OF refs] historyItemChange_def)
  with call show ?thesis by blast
qed

text \<open>
  C9 for a renamed file: the current uri is the new path, the original uri the old one,
  and the modified uri of the result is built from the old path.
\<close>

theorem provideHistoryItemChanges_uris_witness:
  "diffBetween (sample_repository\<lparr>diffBetween := \<lambda>ref1 ref2. Inr [sample_rename]\<rparr>)
     ''b2^'' ''b2'' = Inr [sample_rename]
   \<and> (\<exists>out. snd (provideHistoryItemChanges sample_toGitUri
                   (sample_repository\<lparr>diffBetween := \<lambda>ref1 ref2. Inr [sample_rename]\<rparr>) ''b2'')
              = Inr out
         \<and> length out = 1
         \<and> SourceControlHistoryItemChange.originalUri (out ! 0) =
             sample_toGitUri (Change.originalUri sample_rename) ''b2^''
         \<and> modifiedUri (out ! 0) = sample_toGitUri (Change.originalUri sample_rename) ''b2''
         \<and> path (modifiedUri (out ! 0)) = ''/repo/old.ts''
         \<and> SourceControlHistoryItemChange.uri (out ! 0) =
             (Change.uri sample_rename)\<lparr>query := ''ref=b2''\<rparr>)"
proof -
  let ?repo = "sample_repository\<lparr>diffBetween := \<lambda>ref1 ref2. Inr [sample_rename]\<rparr>"
  obtain ref1 ref2 where
    call: "fst (provideHistoryItemChanges sample_toGitUri ?repo ''b2'') = [DiffBetween ref1 ref2]"
    and out: "\<forall>changes. diffBetween ?repo ref1 ref2 = Inr changes \<longrightarrow>
          (\<exists>out. snd (provideHistoryItemChanges sample_toGitUri ?repo ''b2'') = Inr out
             \<and> length out = length changes
             \<and> (\<forall>i<length changes.
                   SourceControlHistoryItemChange.originalUri (out ! i) =
                     sample_toGitUri (Change.originalUri (changes ! i)) ref1
                 \<and> modifiedUri (out ! i) = sample_toGitUri (Change.originalUri (changes ! i)) ref2
                 \<and> SourceControlHistoryItemChange.uri (out ! i) =
                     (Change.uri (changes ! i))\<lparr>query := ''ref='' @ ''b2''\<rparr>
                 \<and> SourceControlHistoryItemChange.renameUri (out ! i) =
                     Change.renameUri (changes ! i)))"
    using provideHistoryItemChanges_uris [of sample_toGitUri ?repo "''b2''"] by blast
  have "fst (provideHistoryItemChanges sample_toGitUri ?repo ''b2'')
          = [DiffBetween ''b2^'' ''b2'']"
    by (simp add: provideHistoryItemChanges_def refs_of_def)
  with call have refs: "ref1 = ''b2^''" "ref2 = ''b2''" by simp_all
  have answer: "diffBetween ?repo ref1 ref2 = Inr [sample_rename]" by simp
  from out [rule_format, OF answer] obtain out where
    "snd (provideHistoryItemChanges sample_toGitUri ?repo ''b2'') = Inr out"
    "length out = 1"
    "SourceControlHistoryItemChange.originalUri (out ! 0) =
       sample_toGitUri (Change.originalUri sample_rename) ref1"
    "modifiedUri (out ! 0) = sample_toGitUri (Change.originalUri sample_rename) ref2"
    "SourceControlHistoryItemChange.uri (out ! 0) =
       (Change.uri sample_rename)\<lparr>query := ''ref='' @ ''b2''\<rparr>"
    by auto
  moreover have "path (sample_toGitUri (Change.originalUri sample_rename) ''b2'') = ''/repo/old.ts''"
    by (simp add: sample_toGitUri_def sample_rename_def)
  ultimately show ?thesis using refs answer by auto
qed

subsection \<open>Resolving the second ref\<close>

lemma resolve_refId2_given: "resolve_refId2 repo (Some r) = ([], Inr r)"
  by (simp add: resolve_refId2_def)

subsection \<open>Common ancestor\<close>

text \<open>
  C7, as amended. With \<open>refId2\<close> undefined: when the default-branch request is answered
  with a descriptor that carries no name (undefined, or the empty name), the result is
  \<^verbatim>\<open>undefined\<close> and nothing is thrown; when the request itself fails, the failure
  is the outcome of the method. In both cases the only repository call is the one for
  the default branch, so merge-base is not called. The claim as stated, that the method
  returns \<^verbatim>\<open>undefined\<close> rather than throwing whenever no default branch can be
  determined, fails for the failed request: no method of the class catches a
  repository failure.
\<close>

theorem resolve_no_default_branch:
  "(\<forall>b. getDefaultBranch repo = Inr b
          \<and> (Branch.name b = None \<or> Branch.name b = Some '''')
        \<longrightarrow> resolveHistoryItemGroupCommonAncestor repo ref1 None
              = ([GetDefaultBranch], Inr None))
   \<and> (\<forall>e. getDefaultBranch repo = Inl e
        \<longrightarrow> resolveHistoryItemGroupCommonAncestor repo ref1 None
              = ([GetDefaultBranch], Inl e))
   \<and> ((\<forall>b. getDefaultBranch repo = Inr b
            \<longrightarrow> Branch.name b = None \<or> Branch.name b = Some '''')
        \<longrightarrow> (\<forall>r1 r2. GetMergeBase r1 r2
               \<notin> set (fst (resolveHistoryItemGroupCommonAncestor repo ref1 None))))"
proof (intro conjI allI impI)
  fix b
  assume "getDefaultBranch repo = Inr b
          \<and> (Branch.name b = None \<or> Branch.name b = Some '''')"
  then have "resolve_refId2 repo None = ([GetDefaultBranch], Inr '''')"
    by (auto simp: resolve_refId2_def)
  then show "resolveHistoryItemGroupCommonAncestor repo ref1 None
               = ([GetDefaultBranch], Inr None)"
    by (simp add: resolveHistoryItemGroupCommonAncestor_def)
next
  fix e
  assume "getDefaultBranch repo = Inl e"
  then show "resolveHistoryItemGroupCommonAncestor repo ref1 None
               = ([GetDefaultBranch], Inl e)"
    by (simp add: resolveHistoryItemGroupCommonAncestor_def resolve_refId2_def)
next
  fix r1 r2
  assume nameless: "\<forall>b. getDefaultBranch repo = Inr b
            \<longrightarrow> Branch.name b = None \<or> Branch.name b = Some ''''"
  have "fst (resolveHistoryItemGroupCommonAncestor repo ref1 None) = [GetDefaultBranch]"
  proof (cases "getDefaultBranch repo")
    case (Inl e)
    then show ?thesis
      by (simp add: resolveHistoryItemGroupCommonAncestor_def resolve_refId2_def)
  next
    case (Inr b)
    with nameless have "nullish (Branch.name b) '''' = ''''" by auto
    with Inr show ?thesis
      by (simp add: resolveHistoryItemGroupCommonAncestor_def resolve_refId2_def)
  qed
  then show "GetMergeBase r1 r2
               \<notin> set (fst (resolveHistoryItemGroupCommonAncestor repo ref1 None))"
    by simp
qed

text \<open>
  C7 on the sample repository, whose default branch has no name, and on the same
  repository with a default-branch request that fails.
\<close>

theorem resolve_no_default_branch_witness:
  "getDefaultBranch sample_repository = Inr \<lparr>Branch.name = None, commit = None, upstream = None\<rparr>
   \<and> resolveHistoryItemGroupCommonAncestor sample_repository ''refs/heads/main'' None
       = ([GetDefaultBranch], Inr None)
   \<and> getDefaultBranch (sample_repository\<lparr>getDefaultBranch := Inl (Error ''No default branch'')\<rparr>)
       = Inl (Error ''No default branch'')
   \<and> resolveHistoryItemGroupCommonAncestor
        (sample_repository\<lparr>getDefaultBranch := Inl (Error ''No default branch'')\<rparr>)
        ''refs/heads/main'' None
       = ([GetDefaultBranch], Inl (Error ''No default branch''))
   \<and> (\<forall>r1 r2. GetMergeBase r1 r2
          \<notin> set (fst (resolveHistoryItemGroupCommonAncestor sample_repository
                         ''refs/heads/main'' None)))"
proof -
  let ?failing = "sample_repository\<lparr>getDefaultBranch := Inl (Error ''No default branch'')\<rparr>"
  have h: "getDefaultBranch sample_repository
             = Inr \<lparr>Branch.name = None, commit = None, upstream = None\<rparr>"
    by (simp add: sample_repository_def)
  have n: "Branch.name \<lparr>Branch.name = None, commit = None, upstream = None\<rparr> = None"
    by simp
  have all: "\<forall>b. getDefaultBranch sample_repository = Inr b
               \<longrightarrow> Branch.name b = None \<or> Branch.name b = Some ''''"
    using h by auto
  have f: "getDefaultBranch ?failing = Inl (Error ''No default branch'')" by simp
  from h n all f
    resolve_no_default_branch [of sample_repository "''refs/heads/main''"]
    resolve_no_default_branch [of ?failing "''refs/heads/main''"]
  show ?thesis by blast
qed

text \<open>
  C7 as stated fails when the default-branch request is rejected: the method rejects
  with the same error and does not return \<^verbatim>\<open>undefined\<close>.
\<close>

theorem rejected_default_branch_counterexample:
  "snd (resolveHistoryItemGroupCommonAncestor
          (sample_repository\<lparr>getDefaultBranch := Inl (Error ''No default branch'')\<rparr>)
          ''refs/heads/main'' None)
     = Inl (Error ''No default branch'')
   \<and> snd (resolveHistoryItemGroupCommonAncestor
          (sample_repository\<lparr>getDefaultBranch := Inl (Error ''No default branch'')\<rparr>)
          ''refs/heads/main'' None)
     \<noteq> Inr None"
  by (simp add: resolveHistoryItemGroupCommonAncestor_def resolve_refId2_def)

text \<open>
  C8, as amended. For every \<open>ref1\<close> and \<open>ref2\<close>, if merge-base answers the pair with
  the empty string, the result is \<^verbatim>\<open>undefined\<close> and commit-count is not called.
  For every \<open>ref1\<close> and every non-empty \<open>ref2\<close>: with an empty merge-base answer the
  only call is merge-base; with a non-empty answer, and an answer of commit-count for
  the range \<^verbatim>\<open>ref1...ref2\<close>, the calls are exactly merge-base and commit-count and the
  result is the ancestor with the ahead and behind counts of that answer. The claim as
  stated, for every \<open>ref2\<close>, fails at the empty \<open>ref2\<close>, for which the repository is
  not asked at all.
\<close>

theorem resolve_merge_base:
  "(getMergeBase repo ref1 ref2 = Inr '''' \<longrightarrow>
      snd (resolveHistoryItemGroupCommonAncestor repo ref1 (Some ref2)) = Inr None
      \<and> (\<forall>r. GetCommitCount r
             \<notin> set (fst (resolveHistoryItemGroupCommonAncestor repo ref1 (Some ref2)))))
   \<and> (ref2 \<noteq> '''' \<and> getMergeBase repo ref1 ref2 = Inr '''' \<longrightarrow>
        resolveHistoryItemGroupCommonAncestor repo ref1 (Some ref2)
          = ([GetMergeBase ref1 ref2], Inr None))
   \<and> (\<forall>a cc. ref2 \<noteq> ''''
             \<and> getMergeBase repo ref1 ref2 = Inr a \<and> a \<noteq> ''''
             \<and> getCommitCount repo (ref1 @ ''...'' @ ref2) = Inr cc
        \<longrightarrow> resolveHistoryItemGroupCommonAncestor repo ref1 (Some ref2) =
              ([GetMergeBase ref1 ref2, GetCommitCount (ref1 @ ''...'' @ ref2)],
               Inr (Some \<lparr>AncestorResult.id = a, ahead = CommitCount.ahead cc,
                          behind = CommitCount.behind cc\<rparr>)))"
proof (intro conjI impI allI)
  assume "getMergeBase repo ref1 ref2 = Inr ''''"
  then show "snd (resolveHistoryItemGroupCommonAncestor repo ref1 (Some ref2)) = Inr None"
    by (simp add: resolveHistoryItemGroupCommonAncestor_def resolve_refId2_given)
next
  fix r
  assume "getMergeBase repo ref1 ref2 = Inr ''''"
  then show "GetCommitCount r
      \<notin> set (fst (resolveHistoryItemGroupCommonAncestor repo ref1 (Some ref2)))"
    by (simp add: resolveHistoryItemGroupCommonAncestor_def resolve_refId2_given)
next
  assume "ref2 \<noteq> '''' \<and> getMergeBase repo ref1 ref2 = Inr ''''"
  then show "resolveHistoryItemGroupCommonAncestor repo ref1 (Some ref2)
          = ([GetMergeBase ref1 ref2], Inr None)"
    by (simp add: resolveHistoryItemGroupCommonAncestor_def resolve_refId2_given)
next
  fix a cc
  assume "ref2 \<noteq> ''''
             \<and> getMergeBase repo ref1 ref2 = Inr a \<and> a \<noteq> ''''
             \<and> getCommitCount repo (ref1 @ ''...'' @ ref2) = Inr cc"
  then show "resolveHistoryItemGroupCommonAncestor repo ref1 (Some ref2) =
              ([GetMergeBase ref1 ref2, GetCommitCount (ref1 @ ''...'' @ ref2)],
               Inr (Some \<lparr>AncestorResult.id = a, ahead = CommitCount.ahead cc,
                          behind = CommitCount.behind cc\<rparr>))"
    by (simp add: resolveHistoryItemGroupCommonAncestor_def resolve_refId2_given)
qed

text \<open>C8 on the sample repository, with an empty and with a non-empty merge-base.\<close>

theorem resolve_merge_base_witness:
  "''main'' \<noteq> ''''
   \<and> getMergeBase (sample_repository\<lparr>getMergeBase := \<lambda>ref1 ref2. Inr ''''\<rparr>) ''feature'' ''main''
     = Inr ''''
   \<and> resolveHistoryItemGroupCommonAncestor
        (sample_repository\<lparr>getMergeBase := \<lambda>ref1 ref2. Inr ''''\<rparr>) ''feature'' (Some ''main'')
     = ([GetMergeBase ''feature'' ''main''], Inr None)
   \<and> (\<forall>r. GetCommitCount r
          \<notin> set (fst (resolveHistoryItemGroupCommonAncestor
                         (sample_repository\<lparr>getMergeBase := \<lambda>ref1 ref2. Inr ''''\<rparr>)
                         ''feature'' (Some ''main''))))
   \<and> getMergeBase sample_repository ''feature'' ''main'' = Inr ''a1''
   \<and> ''a1'' \<noteq> ''''
   \<and> getCommitCount sample_repository (''feature'' @ ''...'' @ ''main'')
     = Inr \<lparr>CommitCount.ahead = 2, behind = 1\<rparr>
   \<and> resolveHistoryItemGroupCommonAncestor sample_repository ''feature'' (Some ''main'')
     = ([GetMergeBase ''feature'' ''main'', GetCommitCount (''feature'' @ ''...'' @ ''main'')],
        Inr (Some \<lparr>AncestorResult.id = ''a1'', ahead = 2, behind = 1\<rparr>))"
proof -
  let ?none = "sample_repository\<lparr>getMergeBase := \<lambda>ref1 ref2. Inr ''''\<rparr>"
  have r: "''main'' \<noteq> ''''" by simp
  have e: "getMergeBase ?none ''feature'' ''main'' = Inr ''''" by simp
  have m: "getMergeBase sample_repository ''feature'' ''main'' = Inr ''a1''"
    by (simp add: sample_repository_def)
  have n: "''a1'' \<noteq> ''''" by simp
  have k: "getCommitCount sample_repository (''feature'' @ ''...'' @ ''main'')
             = Inr \<lparr>CommitCount.ahead = 2, behind = 1\<rparr>"
    by (simp add: sample_repository_def)
  have "CommitCount.ahead \<lparr>CommitCount.ahead = 2, behind = 1\<rparr> = 2"
    "CommitCount.behind \<lparr>CommitCount.ahead = 2, behind = 1\<rparr> = 1"
    by simp_all
  with r e m n k
    resolve_merge_base [of ?none "''feature''" "''main''"]
    resolve_merge_base [of sample_repository "''feature''" "''main''"]
  show ?thesis by metis
qed

text \<open>
  C8 as stated fails at the empty \<open>ref2\<close>: the sample repository would answer the
  merge-base request with a non-empty ancestor and the commit-count request with
  counts, and the result is \<^verbatim>\<open>undefined\<close>, not the triple.
\<close>

theorem empty_ref2_no_triple_counterexample:
  "getMergeBase sample_repository ''feature'' '''' = Inr ''a1''
   \<and> getCommitCount sample_repository (''feature'' @ ''...'' @ '''')
       = Inr \<lparr>CommitCount.ahead = 2, behind = 1\<rparr>
   \<and> snd (resolveHistoryItemGroupCommonAncestor sample_repository ''feature'' (Some ''''))
       \<noteq> Inr (Some \<lparr>AncestorResult.id = ''a1'', ahead = 2, behind = 1\<rparr>)"
  by (simp add: sample_repository_def resolveHistoryItemGroupCommonAncestor_def
      resolve_refId2_def)

text \<open>
  C10. With the empty string passed as \<open>refId2\<close> the result is \<^verbatim>\<open>undefined\<close> and
  no repository call is made.
\<close>

theorem resolve_empty_ref2:
  "resolveHistoryItemGroupCommonAncestor repo ref1 (Some '''') = ([], Inr None)"
  by (simp add: resolveHistoryItemGroupCommonAncestor_def resolve_refId2_def)

text \<open>C10 on the sample repository.\<close>

theorem resolve_empty_ref2_witness:
  "resolveHistoryItemGroupCommonAncestor sample_repository ''feature'' (Some '''')
     = ([], Inr None)"
  using resolve_empty_ref2 [of sample_repository "''feature''"] .

text \<open>With \<open>refId2\<close> given, merge-base is called exactly when it is not the empty string.\<close>

lemma merge_base_called_iff:
  "GetMergeBase ref1 ref2
     \<in> set (fst (resolveHistoryItemGroupCommonAncestor repo ref1 (Some ref2)))
   \<longleftrightarrow> ref2 \<noteq> ''''"
  by (auto simp: resolveHistoryItemGroupCommonAncestor_def resolve_refId2_def
      split: sum.splits)

end
